theory Spec2Isabelle
  imports Main
begin

section \<open>Python string primitives used by convert\_to\_cmake.py\<close>

text \<open>
  Strings are lists of characters; a character stands for a code point below 256.
  \<open>split_on c s\<close> is \<^verbatim>\<open>s.split(c)\<close> for a one-character separator: the empty string
  splits into one empty field, and adjacent separators give empty fields.
\<close>

fun split_on :: "char \<Rightarrow> string \<Rightarrow> string list" where
  "split_on c [] = [[]]"
| "split_on c (x # xs) =
     (if x = c then [] # split_on c xs
      else (case split_on c xs of
              [] \<Rightarrow> [[x]]
            | w # ws \<Rightarrow> (x # w) # ws))"

text \<open>\<^verbatim>\<open>sep.join(xs)\<close>\<close>

fun join_with :: "string \<Rightarrow> string list \<Rightarrow> string" where
  "join_with sep [] = []"
| "join_with sep [x] = x"
| "join_with sep (x # y # ys) = x @ sep @ join_with sep (y # ys)"

text \<open>\<^verbatim>\<open>s.startswith(p)\<close> and \<^verbatim>\<open>s.endswith(p)\<close>\<close>

definition startswith :: "string \<Rightarrow> string \<Rightarrow> bool" where
  "startswith p s = (take (length p) s = p)"

definition endswith :: "string \<Rightarrow> string \<Rightarrow> bool" where
  "endswith p s = (length p \<le> length s \<and> drop (length s - length p) s = p)"

text \<open>
  The characters that \<^verbatim>\<open>str.strip()\<close> removes (those with \<^verbatim>\<open>isspace()\<close> true) among
  the code points below 256.
\<close>

definition is_space :: "char \<Rightarrow> bool" where
  "is_space c = (c \<in> {CHR 0x09, CHR 0x0A, CHR 0x0B, CHR 0x0C, CHR 0x0D,
                       CHR 0x1C, CHR 0x1D, CHR 0x1E, CHR 0x1F, CHR 0x20,
                       CHR 0x85, CHR 0xA0})"

definition lstrip :: "string \<Rightarrow> string" where
  "lstrip s = dropWhile is_space s"

definition rstrip :: "string \<Rightarrow> string" where
  "rstrip s = rev (dropWhile is_space (rev s))"

definition strip :: "string \<Rightarrow> string" where
  "strip s = lstrip (rstrip s)"

text \<open>\<^verbatim>\<open>"%d" % n\<close>\<close>

definition digit_char :: "nat \<Rightarrow> char" where
  "digit_char d = char_of (48 + d)"

fun str_of_nat :: "nat \<Rightarrow> string" where
  "str_of_nat n =
     (if n < 10 then [digit_char n] else str_of_nat (n div 10) @ [digit_char (n mod 10)])"

declare str_of_nat.simps [simp del]

definition str_of_int :: "int \<Rightarrow> string" where
  "str_of_int i = (if i < 0 then CHR ''-'' # str_of_nat (nat (- i)) else str_of_nat (nat i))"


section \<open>The path functions of \<^verbatim>\<open>os.path\<close> (POSIX flavour)\<close>

text \<open>
  The script calls \<^verbatim>\<open>os.path.join\<close>, \<^verbatim>\<open>basename\<close>, \<^verbatim>\<open>splitext\<close>, \<^verbatim>\<open>normpath\<close> and
  \<^verbatim>\<open>relpath\<close>. They are pure string functions of the standard library and are
  written out here after \<^verbatim>\<open>posixpath.py\<close>.
\<close>

definition join2 :: "string \<Rightarrow> string \<Rightarrow> string" where
  "join2 a b =
     (if startswith ''/'' b then b
      else if a = [] \<or> endswith ''/'' a then a @ b
      else a @ ''/'' @ b)"

definition join3 :: "string \<Rightarrow> string \<Rightarrow> string \<Rightarrow> string" where
  "join3 a b c = join2 (join2 a b) c"

text \<open>\<^verbatim>\<open>basename(p) = p[p.rfind('/') + 1:]\<close>\<close>

definition basename :: "string \<Rightarrow> string" where
  "basename p = rev (takeWhile (\<lambda>c. c \<noteq> CHR ''/'') (rev p))"

text \<open>
  \<^verbatim>\<open>splitext(p)\<close>: the extension starts at the last dot of the last path component,
  unless that component consists of leading dots up to there.
\<close>

definition splitext :: "string \<Rightarrow> string \<times> string" where
  "splitext p =
     (let name = basename p;
          dir = take (length p - length name) p;
          ext = rev (takeWhile (\<lambda>c. c \<noteq> CHR ''.'') (rev name));
          root = take (length name - length ext - 1) name
      in if CHR ''.'' \<in> set name \<and> list_ex (\<lambda>c. c \<noteq> CHR ''.'') root
         then (dir @ root, CHR ''.'' # ext)
         else (p, []))"

text \<open>
  \<^verbatim>\<open>normpath\<close>: the loop over the components keeps a stack; \<open>init\<close> says whether the
  path starts with a slash. Exactly two leading slashes are kept, three or more
  become one.
\<close>

fun norm_comps :: "bool \<Rightarrow> string list \<Rightarrow> string list \<Rightarrow> string list" where
  "norm_comps init new_comps [] = new_comps"
| "norm_comps init new_comps (c # comps) =
     (if c = [] \<or> c = ''.'' then norm_comps init new_comps comps
      else if c \<noteq> ''..'' \<or> (\<not> init \<and> new_comps = [])
                \<or> (new_comps \<noteq> [] \<and> last new_comps = ''..'')
           then norm_comps init (new_comps @ [c]) comps
      else if new_comps \<noteq> [] then norm_comps init (butlast new_comps) comps
      else norm_comps init new_comps comps)"

definition initial_slashes_of :: "string \<Rightarrow> nat" where
  "initial_slashes_of path =
     (if startswith ''/'' path
      then (if startswith ''//'' path \<and> \<not> startswith ''///'' path then 2 else 1)
      else 0)"

definition normpath :: "string \<Rightarrow> string" where
  "normpath path =
     (if path = [] then ''.''
      else
        let initial_slashes = initial_slashes_of path;
            comps = norm_comps (initial_slashes \<noteq> 0) [] (split_on CHR ''/'' path);
            p = replicate initial_slashes CHR ''/'' @ join_with ''/'' comps
        in if p = [] then ''.'' else p)"

text \<open>\<^verbatim>\<open>abspath\<close> needs the working directory of the process.\<close>

definition abspath :: "string \<Rightarrow> string \<Rightarrow> string" where
  "abspath cwd path =
     normpath (if startswith ''/'' path then path else join2 cwd path)"

fun common_prefix_len :: "'a list \<Rightarrow> 'a list \<Rightarrow> nat" where
  "common_prefix_len (x # xs) (y # ys) = (if x = y then Suc (common_prefix_len xs ys) else 0)"
| "common_prefix_len _ _ = 0"


text \<open>
  \<^verbatim>\<open>relpath(path, start)\<close> raises \<^verbatim>\<open>ValueError\<close> on an empty path. The components of
  both absolute paths are compared, and the result climbs out of what is left of
  \<open>start\<close> and descends into what is left of \<open>path\<close>.
\<close>

datatype error =
    RuntimeError string
  | KeyError string
  | NameError string
  | ValueError string
  | IOError string
  | OSError string
  | UnicodeDecodeError

definition relpath :: "string \<Rightarrow> string \<Rightarrow> string \<Rightarrow> error + string" where
  "relpath cwd path start =
     (if path = [] then Inl (ValueError ''no path specified'')
      else
        let start_list = filter (\<lambda>x. x \<noteq> []) (split_on CHR ''/'' (abspath cwd start));
            path_list = filter (\<lambda>x. x \<noteq> []) (split_on CHR ''/'' (abspath cwd path));
            i = common_prefix_len start_list path_list;
            rel_list = replicate (length start_list - i) ''..'' @ drop i path_list
        in (case rel_list of
              [] \<Rightarrow> Inr ''.''
            | r # rs \<Rightarrow> Inr (foldl join2 r rs)))"


section \<open>The world of the script: environment and effects\<close>

text \<open>
  What the script reads from outside is a record of functions: the \<^verbatim>\<open>debug\<close> global, the
  \<^verbatim>\<open>IDF_PATH\<close> environment variable, the working directory, the file system as it is
  before the run (\<^verbatim>\<open>os.path.exists\<close>, \<^verbatim>\<open>glob.glob\<close>, whether \<^verbatim>\<open>open(path, "w")\<close>
  succeeds) and the \<^verbatim>\<open>make\<close> process.

  \<^verbatim>\<open>subprocess.Popen\<close> either fails to start the process (\<open>None\<close>, an \<^verbatim>\<open>OSError\<close>) or
  the process runs to its end and leaves its exit status and the bytes it wrote to
  its two output streams. The two operations of the interpreter on such bytes are
  parameters as well: \<^verbatim>\<open>output.decode()\<close>, which gives the text or fails with
  \<^verbatim>\<open>UnicodeDecodeError\<close> (\<open>None\<close>), and the string that \<^verbatim>\<open>print\<close> shows for them.
\<close>

record proc =
  returncode :: int
  stdout :: string
  stderr :: string

record env =
  debug :: bool
  environ_IDF_PATH :: "string option"
  getcwd :: string
  fs_exists :: "string \<Rightarrow> bool"
  fs_glob :: "string \<Rightarrow> string list"
  fs_can_open :: "string \<Rightarrow> bool"
  run_make :: "string list \<Rightarrow> proc option"
  bytes_decode :: "string \<Rightarrow> string option"
  bytes_str :: "string \<Rightarrow> string"

text \<open>
  What the script does to the outside is a trace of events in the order they happen:
  a process started with its command line, a line printed, a file written whole.
  An error leaves the trace of what happened before it.
\<close>

datatype event =
    Spawn "string list"
  | Print string
  | Write string string

type_synonym trace = "event list"

fun written :: "trace \<Rightarrow> (string \<times> string) list" where
  "written [] = []"
| "written (Write p c # t) = (p, c) # written t"
| "written (_ # t) = written t"

definition written_paths :: "trace \<Rightarrow> string list" where
  "written_paths t = map fst (written t)"

fun spawned :: "trace \<Rightarrow> string list list" where
  "spawned [] = []"
| "spawned (Spawn c # t) = c # spawned t"
| "spawned (_ # t) = spawned t"

text \<open>A path exists if it did before the run or the run has written it.\<close>

definition path_exists :: "env \<Rightarrow> trace \<Rightarrow> string \<Rightarrow> bool" where
  "path_exists e t p = (fs_exists e p \<or> p \<in> set (written_paths t))"

text \<open>\<^verbatim>\<open>if debug: print(s)\<close>\<close>

definition debug_print :: "env \<Rightarrow> string \<Rightarrow> trace \<Rightarrow> trace" where
  "debug_print e s t = (if debug e then t @ [Print s] else t)"


section \<open>\<^verbatim>\<open>get_make_variables\<close>\<close>

definition newline :: char where
  "newline = CHR 0x0A"

definition BUILT_IN_VARS :: "string set" where
  "BUILT_IN_VARS = {''MAKEFILE_LIST'', ''SHELL'', ''CURDIR'', ''MAKEFLAGS''}"

text \<open>
  \<^verbatim>\<open>re.match(r"(?P<var>[^ ]+) :?= (?P<val>.+)", line)\<close>, giving the two groups.
  The first group cannot hold a space and must be followed by one, so it is the line
  up to its first space; then comes \<^verbatim>\<open>:= \<close> or \<^verbatim>\<open>= \<close>; the second group is
  the longest non-empty run without a line feed.
\<close>

definition val_group :: "string \<Rightarrow> string \<Rightarrow> (string \<times> string) option" where
  "val_group var r =
     (let val = takeWhile (\<lambda>c. c \<noteq> newline) r
      in if val = [] then None else Some (var, val))"

definition re_match :: "string \<Rightarrow> (string \<times> string) option" where
  "re_match line =
     (let var = takeWhile (\<lambda>c. c \<noteq> CHR '' '') line;
          rest = dropWhile (\<lambda>c. c \<noteq> CHR '' '') line
      in if var = [] then None
         else if startswith '' := '' rest then val_group var (drop 4 rest)
         else if startswith '' = '' rest then val_group var (drop 3 rest)
         else None)"

text \<open>The loop over the lines, with its two variables.\<close>

fun parse_lines :: "bool \<Rightarrow> (string \<rightharpoonup> string) \<Rightarrow> string list \<Rightarrow> (string \<rightharpoonup> string)" where
  "parse_lines next_is_makefile result [] = result"
| "parse_lines next_is_makefile result (line # rest) =
     (if startswith ''# makefile'' line then parse_lines True result rest
      else if next_is_makefile then
        (case re_match line of
           None \<Rightarrow> parse_lines False result rest
         | Some (var, val) \<Rightarrow>
             if var \<notin> BUILT_IN_VARS then parse_lines False (result(var \<mapsto> strip val)) rest
             else parse_lines False result rest)
      else parse_lines next_is_makefile result rest)"

definition parse_output :: "string \<Rightarrow> (string \<rightharpoonup> string)" where
  "parse_output output = parse_lines False Map.empty (split_on newline output)"

definition make_cmdline :: "string \<Rightarrow> string \<Rightarrow> (string \<times> string) list \<Rightarrow> string list" where
  "make_cmdline path makefile variables =
     [''make'', ''-rpn'', ''-C'', path, ''-f'', makefile]
       @ map (\<lambda>(k, v). k @ ''='' @ v) variables"

text \<open>
  The \<^verbatim>\<open>variables\<close> dictionary is an association list in the order its items are
  iterated. The process counts as spawned once \<^verbatim>\<open>Popen\<close> has returned; the exit status
  is looked at before the output is decoded.
\<close>

definition get_make_variables ::
  "env \<Rightarrow> string \<Rightarrow> string \<Rightarrow> bool \<Rightarrow> (string \<times> string) list \<Rightarrow> trace
     \<Rightarrow> (error + (string \<rightharpoonup> string)) \<times> trace" where
  "get_make_variables e path makefile expected_failure variables t =
     (let cmdline = make_cmdline path makefile variables;
          t1 = debug_print e (''Running '' @ join_with '' '' cmdline @ ''...'') t
      in (case run_make e cmdline of
            None \<Rightarrow> (Inl (OSError ''make''), t1)
          | Some p \<Rightarrow>
              let t2 = t1 @ [Spawn cmdline]
              in if \<not> expected_failure \<and> returncode p \<noteq> 0
                 then (Inl (RuntimeError (''Unexpected make failure, result ''
                                            @ str_of_int (returncode p))), t2)
                 else
                   let t3 = (if debug e
                             then t2 @ [Print ''Make stdout:'', Print (bytes_str e (stdout p)),
                                        Print ''Make stderr:'', Print (bytes_str e (stderr p))]
                             else t2)
                   in (case bytes_decode e (stdout p) of
                         None \<Rightarrow> (Inl UnicodeDecodeError, t3)
                       | Some output \<Rightarrow> (Inr (parse_output output), t3))))"


section \<open>\<^verbatim>\<open>get_component_variables\<close>\<close>

text \<open>\<^verbatim>\<open>d.get(k, default)\<close>\<close>

definition dict_get :: "(string \<rightharpoonup> string) \<Rightarrow> string \<Rightarrow> string \<Rightarrow> string" where
  "dict_get d k dflt = (case d k of None \<Rightarrow> dflt | Some v \<Rightarrow> v)"

text \<open>
  The nested \<^verbatim>\<open>find_src\<close>: the object name loses its extension, then the extensions are
  tried in order; when none exists a warning is printed and the result is \<^verbatim>\<open>None\<close>.
\<close>

definition cant_find_warning :: "string \<Rightarrow> string \<Rightarrow> string" where
  "cant_find_warning component_path obj =
     ''WARNING: Can't find source file for component '' @ component_path
       @ '' COMPONENT_OBJS '' @ obj"

definition find_src :: "env \<Rightarrow> string \<Rightarrow> string \<Rightarrow> trace \<Rightarrow> string option \<times> trace" where
  "find_src e component_path obj t =
     (let obj1 = fst (splitext obj)
      in (case find (\<lambda>ext. path_exists e t (join2 component_path obj1 @ ''.'' @ ext))
                    [''c'', ''cpp'', ''S''] of
            Some ext \<Rightarrow> (Some (obj1 @ ''.'' @ ext), t)
          | None \<Rightarrow> (None, t @ [Print (cant_find_warning component_path obj1)])))"

fun find_srcs :: "env \<Rightarrow> string \<Rightarrow> string list \<Rightarrow> string list \<Rightarrow> trace
                    \<Rightarrow> string list \<times> trace" where
  "find_srcs e component_path srcs [] t = (srcs, t)"
| "find_srcs e component_path srcs (obj # objs) t =
     (case find_src e component_path obj t of
        (None, t1) \<Rightarrow> find_srcs e component_path srcs objs t1
      | (Some src, t1) \<Rightarrow> find_srcs e component_path (srcs @ [src]) objs t1)"

text \<open>
  The call of \<^verbatim>\<open>get_make_variables\<close> on the shared wrapper makefile, with the three
  variable overrides in the order the dictionary literal lists them.
\<close>

definition component_make_variables ::
  "env \<Rightarrow> string \<Rightarrow> string \<Rightarrow> string \<Rightarrow> trace \<Rightarrow> (error + (string \<rightharpoonup> string)) \<times> trace" where
  "component_make_variables e idf_path project_path component_path t =
     get_make_variables e component_path
       (join3 idf_path ''make'' ''component_wrapper.mk'')
       True
       [(''COMPONENT_MAKEFILE'', join2 component_path ''component.mk''),
        (''COMPONENT_NAME'', basename component_path),
        (''PROJECT_PATH'', project_path)]
       t"

text \<open>
  The arguments of the call are evaluated first, so a missing \<^verbatim>\<open>IDF_PATH\<close> raises
  \<^verbatim>\<open>KeyError\<close> before any process is started.
\<close>

definition get_component_variables ::
  "env \<Rightarrow> string \<Rightarrow> string \<Rightarrow> trace \<Rightarrow> (error + (string \<rightharpoonup> string)) \<times> trace" where
  "get_component_variables e project_path component_path t =
     (case environ_IDF_PATH e of
        None \<Rightarrow> (Inl (KeyError ''IDF_PATH''), t)
      | Some idf_path \<Rightarrow>
          (case component_make_variables e idf_path project_path component_path t of
             (Inl err, t1) \<Rightarrow> (Inl err, t1)
           | (Inr make_vars, t1) \<Rightarrow>
               (case (case make_vars ''COMPONENT_OBJS'' of
                        Some objs \<Rightarrow>
                          (case find_srcs e component_path [] (split_on CHR '' '' objs) t1 of
                             (srcs, t2) \<Rightarrow>
                               (make_vars(''COMPONENT_SRCS'' \<mapsto> join_with '' '' srcs), t2))
                      | None \<Rightarrow>
                          (make_vars(''COMPONENT_SRCDIRS'' \<mapsto>
                                       dict_get make_vars ''COMPONENT_SRCDIRS'' ''.''), t1)) of
                  (make_vars1, t2) \<Rightarrow>
                    (Inr (make_vars1(''COMPONENT_ADD_INCLUDEDIRS'' \<mapsto>
                            dict_get make_vars1 ''COMPONENT_ADD_INCLUDEDIRS'' ''include'')),
                     t2))))"


section \<open>\<^verbatim>\<open>convert_component\<close>\<close>

text \<open>The two globs of every source directory, in the order of the loop.\<close>

definition glob_allsrcs :: "env \<Rightarrow> string \<Rightarrow> string list \<Rightarrow> string list" where
  "glob_allsrcs e component_path dirs =
     concat (map (\<lambda>d. fs_glob e (normpath (join3 component_path d ''*.[cS]''))
                      @ fs_glob e (normpath (join3 component_path d ''*.cpp''))) dirs)"

definition abs_srcs :: "string \<Rightarrow> string \<Rightarrow> string list" where
  "abs_srcs component_path component_srcs =
     map (\<lambda>p. normpath (join2 component_path p)) (split_on CHR '' '' component_srcs)"

text \<open>
  The value of \<^verbatim>\<open>component_srcdirs\<close> after the comparison of the two sets: it stays
  \<^verbatim>\<open>None\<close> unless they are equal, and then it is \<^verbatim>\<open>v.get("COMPONENT_SRCDIRS")\<close>.
\<close>

definition choose_srcdirs :: "env \<Rightarrow> string \<Rightarrow> (string \<rightharpoonup> string) \<Rightarrow> string option" where
  "choose_srcdirs e component_path v =
     (case v ''COMPONENT_SRCS'' of
        None \<Rightarrow> None
      | Some component_srcs \<Rightarrow>
          let component_allsrcs =
                glob_allsrcs e component_path
                  (split_on CHR '' '' (dict_get v ''COMPONENT_SRCDIRS'' []));
              abs_component_srcs = abs_srcs component_path component_srcs
          in if set component_allsrcs = set abs_component_srcs
             then v ''COMPONENT_SRCDIRS'' else None)"

text \<open>What the \<^verbatim>\<open>with open(cmakelists_path, "w")\<close> block writes, one write at a time.\<close>

definition set_includedirs :: "string \<Rightarrow> string" where
  "set_includedirs dirs = ''set(COMPONENT_ADD_INCLUDEDIRS '' @ dirs @ '')'' @ [newline, newline]"

definition set_srcdirs :: "string \<Rightarrow> string" where
  "set_srcdirs dirs = ''set(COMPONENT_SRCDIRS '' @ dirs @ '')'' @ [newline, newline]"

definition set_srcs :: "string \<Rightarrow> string" where
  "set_srcs srcs = ''set(COMPONENT_SRCS '' @ srcs @ '')'' @ [newline, newline]"

definition register_component :: string where
  "register_component = ''register_component()'' @ [newline]"

definition register_config_only_component :: string where
  "register_config_only_component = ''register_config_only_component()'' @ [newline]"

definition compile_options :: "string option \<Rightarrow> string" where
  "compile_options cflags =
     (case cflags of
        None \<Rightarrow> []
      | Some fl \<Rightarrow> ''component_compile_options('' @ fl @ '')'' @ [newline])"

definition component_text ::
  "string \<Rightarrow> string option \<Rightarrow> string option \<Rightarrow> string option \<Rightarrow> string" where
  "component_text component_add_includedirs component_srcdirs component_srcs cflags =
     set_includedirs component_add_includedirs
     @ (case component_srcdirs of
          Some dirs \<Rightarrow> set_srcdirs dirs @ register_component
        | None \<Rightarrow>
            (case component_srcs of
               Some srcs \<Rightarrow> set_srcs srcs @ register_component
             | None \<Rightarrow> register_config_only_component))
     @ compile_options cflags"

definition cmakelists_of :: "string \<Rightarrow> string" where
  "cmakelists_of dir = join2 dir ''CMakeLists.txt''"

definition converting_notice :: "string \<Rightarrow> string" where
  "converting_notice component_path = ''Converting '' @ component_path @ ''...''"

definition converted_notice :: "string \<Rightarrow> string" where
  "converted_notice cmakelists_path = ''Converted '' @ cmakelists_path"

definition skipping_notice :: "string \<Rightarrow> string" where
  "skipping_notice cmakelists_path =
     ''Skipping already-converted component '' @ cmakelists_path @ ''...''"

definition convert_component :: "env \<Rightarrow> string \<Rightarrow> string \<Rightarrow> trace \<Rightarrow> (error + unit) \<times> trace" where
  "convert_component e project_path component_path t =
     (let t0 = debug_print e (converting_notice component_path) t;
          cmakelists_path = cmakelists_of component_path
      in if path_exists e t0 cmakelists_path
         then (Inr (), t0 @ [Print (skipping_notice cmakelists_path)])
         else
           (case get_component_variables e project_path component_path t0 of
              (Inl err, t1) \<Rightarrow> (Inl err, t1)
            | (Inr v, t1) \<Rightarrow>
                let component_srcs = v ''COMPONENT_SRCS'';
                    component_srcdirs = choose_srcdirs e component_path v
                in (case v ''COMPONENT_ADD_INCLUDEDIRS'' of
                      None \<Rightarrow> (Inl (KeyError ''COMPONENT_ADD_INCLUDEDIRS''), t1)
                    | Some component_add_includedirs \<Rightarrow>
                        let cflags = v ''CFLAGS''
                        in if \<not> fs_can_open e cmakelists_path
                           then (Inl (IOError cmakelists_path), t1)
                           else (Inr (),
                                 t1 @ [Write cmakelists_path
                                         (component_text component_add_includedirs
                                            component_srcdirs component_srcs cflags),
                                       Print (converted_notice cmakelists_path)]))))"


section \<open>\<^verbatim>\<open>convert_project\<close>\<close>

text \<open>The loop over the remaining components; an exception ends it.\<close>

fun convert_components :: "env \<Rightarrow> string \<Rightarrow> string list \<Rightarrow> trace \<Rightarrow> (error + unit) \<times> trace" where
  "convert_components e project_path [] t = (Inr (), t)"
| "convert_components e project_path (p # ps) t =
     (case convert_component e project_path p t of
        (Inl err, t1) \<Rightarrow> (Inl err, t1)
      | (Inr _, t1) \<Rightarrow> convert_components e project_path ps t1)"

text \<open>
  The \<^verbatim>\<open>try\<close> block. Indexing the empty list raises \<^verbatim>\<open>IndexError\<close> before
  \<^verbatim>\<open>main_component_path\<close> is bound; the handler prints the warning and sets the dummy
  variables, and the name stays unbound (\<open>None\<close>). No other error is caught.
\<close>

definition no_main_warning :: string where
  "no_main_warning =
     ''WARNING: Project has no '' @ [CHR 0x27] @ ''main'' @ [CHR 0x27]
       @ '' component, but CMake-based system requires at least one file in MAIN_SRCS...''"

definition find_main ::
  "env \<Rightarrow> string \<Rightarrow> string list \<Rightarrow> trace
     \<Rightarrow> (error + (string option \<times> (string \<rightharpoonup> string))) \<times> trace" where
  "find_main e project_path component_paths t =
     (case filter (\<lambda>p. basename p = ''main'') component_paths of
        [] \<Rightarrow>
          (Inr (None, [''COMPONENT_SRCS'' \<mapsto> []]), t @ [Print no_main_warning])
      | main_component_path # _ \<Rightarrow>
          let t0 = debug_print e (''Found main component '' @ main_component_path) t
          in (case get_component_variables e project_path main_component_path t0 of
                (Inl err, t1) \<Rightarrow> (Inl err, t1)
              | (Inr main_vars, t1) \<Rightarrow> (Inr (Some main_component_path, main_vars), t1)))"

text \<open>
  The first list comprehension over \<^verbatim>\<open>main_srcs\<close> reads \<^verbatim>\<open>main_component_path\<close> for every
  element: with the name unbound, the first element raises \<^verbatim>\<open>NameError\<close>.
\<close>

definition main_srcs_abs :: "string option \<Rightarrow> string list \<Rightarrow> error + string list" where
  "main_srcs_abs main_component_path main_srcs =
     (case main_component_path of
        None \<Rightarrow> (if main_srcs = [] then Inr [] else Inl (NameError ''main_component_path''))
      | Some mcp \<Rightarrow> Inr (map (\<lambda>m. normpath (join2 mcp m)) main_srcs))"

fun main_srcs_rel :: "string \<Rightarrow> string \<Rightarrow> string list \<Rightarrow> error + string list" where
  "main_srcs_rel cwd project_path [] = Inr []"
| "main_srcs_rel cwd project_path (m # ms) =
     (case relpath cwd m project_path of
        Inl err \<Rightarrow> Inl err
      | Inr r \<Rightarrow>
          (case main_srcs_rel cwd project_path ms of
             Inl err \<Rightarrow> Inl err
           | Inr rs \<Rightarrow> Inr (r # rs)))"

definition project_text :: "string list \<Rightarrow> string \<Rightarrow> string" where
  "project_text main_srcs project_name =
     [newline]
     @ ''# (Automatically converted from project Makefile by convert_to_cmake.py.)'' @ [newline]
     @ [newline]
     @ ''# The following four lines of boilerplate have to be in your project's CMakeLists''
     @ [newline]
     @ ''# in this exact order for cmake to work correctly'' @ [newline]
     @ ''cmake_minimum_required(VERSION 3.5)'' @ [newline]
     @ [newline]
     @ ''set(MAIN_SRCS '' @ join_with '' '' main_srcs @ '')'' @ [newline]
     @ [newline]
     @ ''include($ENV{IDF_PATH}/tools/cmake/project.cmake)'' @ [newline]
     @ ''project('' @ project_name @ '')'' @ [newline]"

text \<open>
  The end of \<^verbatim>\<open>convert_project\<close>, from the lookup of the entry sources to the file: all
  values are computed before the file is opened.
\<close>

definition write_project ::
  "env \<Rightarrow> string \<Rightarrow> string \<Rightarrow> string \<Rightarrow> string option \<Rightarrow> (string \<rightharpoonup> string) \<Rightarrow> trace
     \<Rightarrow> (error + unit) \<times> trace" where
  "write_project e project_path project_cmakelists project_name main_component_path main_vars t =
     (case main_vars ''COMPONENT_SRCS'' of
        None \<Rightarrow> (Inl (KeyError ''COMPONENT_SRCS''), t)
      | Some srcs \<Rightarrow>
          (case main_srcs_abs main_component_path (split_on CHR '' '' srcs) of
             Inl err \<Rightarrow> (Inl err, t)
           | Inr main_srcs1 \<Rightarrow>
               (case main_srcs_rel (getcwd e) project_path main_srcs1 of
                  Inl err \<Rightarrow> (Inl err, t)
                | Inr main_srcs2 \<Rightarrow>
                    if \<not> fs_can_open e project_cmakelists
                    then (Inl (IOError project_cmakelists), t)
                    else (Inr (),
                          t @ [Write project_cmakelists (project_text main_srcs2 project_name),
                               Print (''Converted project '' @ project_cmakelists)]))))"

text \<open>
  The check that \<^verbatim>\<open>PROJECT_NAME\<close> is defined binds the name that is read again before
  the file is written.
\<close>

definition convert_project :: "env \<Rightarrow> string \<Rightarrow> trace \<Rightarrow> (error + unit) \<times> trace" where
  "convert_project e project_path t =
     (if \<not> path_exists e t project_path
      then (Inl (RuntimeError (''Project directory '' @ [CHR 0x27] @ project_path
                                 @ [CHR 0x27] @ '' not found'')), t)
      else if \<not> path_exists e t (join2 project_path ''Makefile'')
      then (Inl (RuntimeError (''Directory '' @ [CHR 0x27] @ project_path @ [CHR 0x27]
                                 @ '' doesn't contain a project Makefile'')), t)
      else
        let project_cmakelists = cmakelists_of project_path
        in if path_exists e t project_cmakelists
           then (Inl (RuntimeError ''This project already has a CMakeLists.txt file''), t)
           else
             (case get_make_variables e project_path ''Makefile'' True [] t of
                (Inl err, t1) \<Rightarrow> (Inl err, t1)
              | (Inr project_vars, t1) \<Rightarrow>
                  (case project_vars ''PROJECT_NAME'' of
                     None \<Rightarrow>
                       (Inl (RuntimeError
                               (''PROJECT_NAME does not appear to be defined in IDF project ''
                                  @ ''Makefile at '' @ project_path)), t1)
                   | Some project_name \<Rightarrow>
                       (case project_vars ''COMPONENT_PATHS'' of
                          None \<Rightarrow> (Inl (KeyError ''COMPONENT_PATHS''), t1)
                        | Some paths \<Rightarrow>
                            let component_paths = split_on CHR '' '' paths
                            in (case find_main e project_path component_paths t1 of
                                  (Inl err, t2) \<Rightarrow> (Inl err, t2)
                                | (Inr (main_component_path, main_vars), t2) \<Rightarrow>
                                    (case convert_components e project_path
                                            (filter (\<lambda>p. basename p \<noteq> ''main'') component_paths)
                                            t2 of
                                       (Inl err, t3) \<Rightarrow> (Inl err, t3)
                                     | (Inr _, t3) \<Rightarrow>
                                         write_project e project_path project_cmakelists
                                           project_name main_component_path main_vars t3))))))"


section \<open>Notions of the specification\<close>

text \<open>
  A line is captured for the name \<open>k\<close> with the value \<open>v\<close>: it reads \<^verbatim>\<open>k := val\<close> or
  \<^verbatim>\<open>k = val\<close> for a name without spaces and a non-empty \<open>val\<close>, and \<open>v\<close> is \<open>val\<close>
  without its leading and trailing white space.
\<close>

definition captured :: "string \<Rightarrow> string \<Rightarrow> string \<Rightarrow> bool" where
  "captured line k v \<longleftrightarrow>
     (\<exists>val. (line = k @ '' := '' @ val \<or> line = k @ '' = '' @ val)
        \<and> k \<noteq> [] \<and> CHR '' '' \<notin> set k \<and> val \<noteq> [] \<and> v = strip val)"

text \<open>A variable of a component as \<^verbatim>\<open>get_component_variables\<close> resolves it on a fresh run.\<close>

definition resolved_variable :: "env \<Rightarrow> string \<Rightarrow> string \<Rightarrow> string \<Rightarrow> string option" where
  "resolved_variable e project_path component_path k =
     (case fst (get_component_variables e project_path component_path []) of
        Inl err \<Rightarrow> None
      | Inr v \<Rightarrow> v k)"



text \<open>The stem of an object file name is the name without its extension.\<close>

definition stem_of :: "string \<Rightarrow> string" where
  "stem_of obj = fst (splitext obj)"

text \<open>
  The probe of the specification: the source sharing the stem, with extension \<^verbatim>\<open>c\<close>,
  \<^verbatim>\<open>cpp\<close> or \<^verbatim>\<open>S\<close> in that priority, inside the component directory.
\<close>

definition spec_probe :: "env \<Rightarrow> trace \<Rightarrow> string \<Rightarrow> string \<Rightarrow> string option" where
  "spec_probe e t component_path stem =
     (if path_exists e t (join2 component_path stem @ ''.c'') then Some (stem @ ''.c'')
      else if path_exists e t (join2 component_path stem @ ''.cpp'') then Some (stem @ ''.cpp'')
      else if path_exists e t (join2 component_path stem @ ''.S'') then Some (stem @ ''.S'')
      else None)"


section \<open>A sample project\<close>

text \<open>
  The project \<^verbatim>\<open>/proj\<close> has the entry component \<^verbatim>\<open>main\<close>, whose makefile names two
  object files, one of them without a source, and five more components: \<^verbatim>\<open>compA\<close>
  lists the one source its directory holds, \<^verbatim>\<open>compB\<close> defines nothing, \<^verbatim>\<open>compC\<close> lists
  one of its two sources and sets compiler flags, \<^verbatim>\<open>compD\<close> is converted already,
  and \<^verbatim>\<open>compE\<close> names the object file of the one source its directory holds.
\<close>

text \<open>
  The interpreter of the sample decodes bytes below 128 as themselves and fails on any
  other byte; the outputs of the sample are plain ASCII, where every Python does so,
  and so is what \<^verbatim>\<open>print\<close> shows for them.
\<close>

definition ascii_decode :: "string \<Rightarrow> string option" where
  "ascii_decode bs = (if list_all (\<lambda>c. \<not> digit7 c) bs then Some bs else None)"

definition unlines :: "string list \<Rightarrow> string" where
  "unlines ls = concat (map (\<lambda>l. l @ [newline]) ls)"

definition demo_project_output :: string where
  "demo_project_output = unlines
     [''# environment'',
      ''SHELL = /bin/sh'',
      ''# makefile (from Makefile, line 6)'',
      ''PROJECT_NAME := demo'',
      ''# makefile (from project.mk, line 100)'',
      ''COMPONENT_PATHS := /proj/main /proj/compA /proj/compB /proj/compC /proj/compD /proj/compE'',
      ''# makefile'',
      ''MAKEFILE_LIST :=  Makefile'']"

definition demo_make :: "string list \<Rightarrow> proc" where
  "demo_make cmdline =
     (case cmdline of
        _ # _ # _ # dir # _ \<Rightarrow>
          if dir = ''/proj''
          then \<lparr>returncode = 2, stdout = demo_project_output, stderr = ''make: *** No targets''\<rparr>
          else if dir = ''/proj/main''
          then \<lparr>returncode = 0,
                stdout = unlines [''# makefile'', ''COMPONENT_OBJS := main.o gone.o''],
                stderr = []\<rparr>
          else if dir = ''/proj/compA''
          then \<lparr>returncode = 0,
                stdout = unlines [''# makefile'', ''COMPONENT_SRCS := a.c'',
                                  ''# makefile'', ''COMPONENT_SRCDIRS := .''],
                stderr = []\<rparr>
          else if dir = ''/proj/compC''
          then \<lparr>returncode = 0,
                stdout = unlines [''# makefile'', ''COMPONENT_SRCS := c1.c'',
                                  ''# makefile'', ''COMPONENT_SRCDIRS := .'',
                                  ''# makefile'', ''CFLAGS := -O2''],
                stderr = []\<rparr>
          else if dir = ''/proj/compE''
          then \<lparr>returncode = 0,
                stdout = unlines [''# makefile'', ''COMPONENT_OBJS := e.o''],
                stderr = []\<rparr>
          else \<lparr>returncode = 2, stdout = [], stderr = ''make: *** No rule''\<rparr>
      | _ \<Rightarrow> \<lparr>returncode = 2, stdout = [], stderr = ''usage''\<rparr>)"

definition demo_glob :: "string \<Rightarrow> string list" where
  "demo_glob pattern =
     (if pattern = ''/proj/compA/*.[cS]'' then [''/proj/compA/a.c'']
      else if pattern = ''/proj/compC/*.[cS]'' then [''/proj/compC/c1.c'', ''/proj/compC/c2.c'']
      else if pattern = ''/proj/compE/*.[cS]'' then [''/proj/compE/e.c'']
      else [])"

definition demo :: env where
  "demo =
     \<lparr>debug = False,
      environ_IDF_PATH = Some ''/idf'',
      getcwd = ''/proj'',
      fs_exists = (\<lambda>p. p \<in> set [''/proj'', ''/proj/Makefile'', ''/proj/main/main.c'',
                                 ''/proj/compA/a.c'', ''/proj/compC/c1.c'', ''/proj/compC/c2.c'',
                                 ''/proj/compD/CMakeLists.txt'', ''/proj/compE/e.c'']),
      fs_glob = demo_glob,
      fs_can_open = (\<lambda>p. True),
      run_make = (\<lambda>cmdline. Some (demo_make cmdline)),
      bytes_decode = ascii_decode,
      bytes_str = (\<lambda>bs. bs)\<rparr>"


text \<open>A project whose component list has no \<^verbatim>\<open>main\<close>.\<close>

definition no_main_output :: string where
  "no_main_output = unlines
     [''# makefile (from Makefile, line 6)'',
      ''PROJECT_NAME := demo'',
      ''# makefile (from project.mk, line 100)'',
      ''COMPONENT_PATHS := /proj/compA /proj/compB'']"

definition demo_no_main :: env where
  "demo_no_main =
     demo\<lparr>run_make := (\<lambda>cmdline.
             if cmdline = [''make'', ''-rpn'', ''-C'', ''/proj'', ''-f'', ''Makefile'']
             then Some \<lparr>returncode = 0, stdout = no_main_output, stderr = []\<rparr>
             else Some (demo_make cmdline))\<rparr>"

text \<open>
  A project whose entry component names one object file that has no source, and no
  other component.
\<close>

definition bare_output :: string where
  "bare_output = unlines
     [''# makefile (from Makefile, line 6)'',
      ''PROJECT_NAME := demo'',
      ''# makefile (from project.mk, line 100)'',
      ''COMPONENT_PATHS := /proj/main'']"

definition demo_bare :: env where
  "demo_bare =
     demo\<lparr>run_make := (\<lambda>cmdline.
             if cmdline = [''make'', ''-rpn'', ''-C'', ''/proj'', ''-f'', ''Makefile'']
             then Some \<lparr>returncode = 0, stdout = bare_output, stderr = []\<rparr>
             else Some \<lparr>returncode = 0,
                        stdout = unlines [''# makefile'', ''COMPONENT_OBJS := gone.o''],
                        stderr = []\<rparr>)\<rparr>"

text \<open>
  A run of \<^verbatim>\<open>make\<close> that exits with status 2 and whose output is the one byte 255, which
  is not text in any encoding Python decodes by default.
\<close>

definition demo_garbled :: env where
  "demo_garbled =
     demo\<lparr>run_make := (\<lambda>cmdline. Some \<lparr>returncode = 2, stdout = [CHR 0xFF], stderr = []\<rparr>)\<rparr>"

text \<open>A machine on which \<^verbatim>\<open>make\<close> cannot be started.\<close>

definition demo_no_make :: env where
  "demo_no_make = demo\<lparr>run_make := (\<lambda>cmdline. None)\<rparr>"

text \<open>The command line of \<^verbatim>\<open>make\<close> for a component of the sample project.\<close>

definition demo_cmdline :: "string \<Rightarrow> string list" where
  "demo_cmdline dir =
     make_cmdline dir ''/idf/make/component_wrapper.mk''
       [(''COMPONENT_MAKEFILE'', join2 dir ''component.mk''),
        (''COMPONENT_NAME'', basename dir),
        (''PROJECT_PATH'', ''/proj'')]"

text \<open>An output of make whose only definition has blanks on both sides of the value.\<close>

definition padded_output :: string where
  "padded_output = ''# makefile'' @ [newline] @ ''X :=  a ''"


section \<open>Traces: what a step adds\<close>

lemma written_append [simp]: "written (t @ u) = written t @ written u"
  by (induction t rule: written.induct) auto

lemma written_paths_append [simp]: "written_paths (t @ u) = written_paths t @ written_paths u"
  by (simp add: written_paths_def)

lemma spawned_append [simp]: "spawned (t @ u) = spawned t @ spawned u"
  by (induction t rule: spawned.induct) auto

lemma written_debug_print [simp]: "written (debug_print e s t) = written t"
  by (simp add: debug_print_def)

lemma spawned_debug_print [simp]: "spawned (debug_print e s t) = spawned t"
  by (simp add: debug_print_def)

lemma path_exists_cong: "written t = written t' \<Longrightarrow> path_exists e t = path_exists e t'"
  by (rule ext) (simp add: path_exists_def written_paths_def)

lemma path_exists_debug_print [simp]: "path_exists e (debug_print e s t) = path_exists e t"
  by (rule path_exists_cong) simp

lemma path_exists_Print [simp]: "path_exists e (t @ [Print s]) = path_exists e t"
  by (rule path_exists_cong) simp

lemma get_make_variables_trace:
  "\<exists>new. snd (get_make_variables e path makefile ef vars t) = t @ new \<and> written new = []"
  by (auto simp: get_make_variables_def Let_def debug_print_def split: option.splits)

lemma get_make_variables_written [simp]:
  "written (snd (get_make_variables e path makefile ef vars t)) = written t"
  using get_make_variables_trace [of e path makefile ef vars t] by auto

lemma component_make_variables_written [simp]:
  "written (snd (component_make_variables e idf pp cp t)) = written t"
  by (simp add: component_make_variables_def)


section \<open>The parser of the output of make\<close>

lemma split_on_nonempty: "split_on c s \<noteq> []"
  by (induction s) (auto split: list.splits)

lemma split_on_no_sep: "l \<in> set (split_on c s) \<Longrightarrow> c \<notin> set l"
proof (induction s arbitrary: l)
  case Nil
  then show ?case by simp
next
  case (Cons x xs)
  show ?case
  proof (cases "x = c")
    case True
    with Cons show ?thesis by auto
  next
    case False
    obtain w ws where sp: "split_on c xs = w # ws"
      using split_on_nonempty [of c xs] by (cases "split_on c xs") auto
    with Cons.prems False have "l = x # w \<or> l \<in> set ws" by auto
    then show ?thesis
    proof
      assume "l = x # w"
      moreover have "c \<notin> set w" using Cons.IH [of w] sp by simp
      ultimately show ?thesis using False by auto
    next
      assume "l \<in> set ws"
      then show ?thesis using Cons.IH [of l] sp by simp
    qed
  qed
qed

lemma takeWhile_all: "\<forall>x \<in> set xs. P x \<Longrightarrow> takeWhile P xs = xs"
  by (induction xs) auto

text \<open>A match of the regular expression on a line without line feed gives back the line.\<close>

lemma re_match_SomeD:
  assumes "re_match line = Some (var, val)" and "newline \<notin> set line"
  shows "(line = var @ '' := '' @ val \<or> line = var @ '' = '' @ val)
         \<and> var \<noteq> [] \<and> CHR '' '' \<notin> set var \<and> val \<noteq> []"
proof -
  let ?P = "\<lambda>c. c \<noteq> CHR '' ''"
  let ?rest = "dropWhile ?P line"
  have var: "var = takeWhile ?P line" and ne: "var \<noteq> []"
    using assms(1) unfolding re_match_def val_group_def Let_def
    by (auto split: if_splits)
  have line: "line = var @ ?rest" using var by simp
  have nosp: "CHR '' '' \<notin> set var" using var by (auto dest: set_takeWhileD)
  have nl: "\<And>n. takeWhile (\<lambda>c. c \<noteq> newline) (drop n ?rest) = drop n ?rest"
  proof (rule takeWhile_all, rule ballI)
    fix n x assume "x \<in> set (drop n ?rest)"
    then have "x \<in> set line" by (meson in_set_dropD set_dropWhileD)
    with assms(2) show "x \<noteq> newline" by auto
  qed
  consider (a) "startswith '' := '' ?rest" "val = drop 4 ?rest"
    | (b) "startswith '' = '' ?rest" "val = drop 3 ?rest"
    using assms(1) ne var nl unfolding re_match_def val_group_def Let_def
    by (auto split: if_splits)
  then have "(?rest = '' := '' @ val \<or> ?rest = '' = '' @ val)"
  proof cases
    case a
    then have "take 4 ?rest = '' := ''"
      unfolding startswith_def by (simp add: eval_nat_numeral)
    then have "?rest = '' := '' @ drop 4 ?rest" by (metis append_take_drop_id)
    with a show ?thesis by simp
  next
    case b
    then have "take 3 ?rest = '' = ''"
      unfolding startswith_def by (simp add: eval_nat_numeral)
    then have "?rest = '' = '' @ drop 3 ?rest" by (metis append_take_drop_id)
    with b show ?thesis by simp
  qed
  moreover have "val \<noteq> []"
    using assms(1) ne var nl unfolding re_match_def val_group_def Let_def
    by (auto split: if_splits)
  ultimately show ?thesis using line ne nosp by metis
qed

text \<open>
  The invariant of the loop: an entry of the result was there before, or it comes from a
  line that follows a marker line. With the flag set, the line may be the next one.
\<close>

lemma parse_lines_sound:
  assumes "parse_lines nim result ls k = Some v" and "\<forall>l \<in> set ls. newline \<notin> set l"
  shows "result k = Some v
         \<or> (k \<notin> BUILT_IN_VARS
            \<and> ((nim \<and> ls \<noteq> [] \<and> \<not> startswith ''# makefile'' (hd ls) \<and> captured (hd ls) k v)
               \<or> (\<exists>i. Suc i < length ls \<and> startswith ''# makefile'' (ls ! i)
                        \<and> captured (ls ! Suc i) k v)))"
  using assms
proof (induction ls arbitrary: nim result)
  case Nil
  then show ?case by simp
next
  case (Cons line rest)
  have nl: "\<forall>l \<in> set rest. newline \<notin> set l" and nl1: "newline \<notin> set line"
    using Cons.prems(2) by auto
  show ?case
  proof (cases "startswith ''# makefile'' line")
    case True
    then have "parse_lines True result rest k = Some v" using Cons.prems(1) by simp
    from Cons.IH [OF this nl] show ?thesis
    proof (elim disjE conjE exE)
      assume "result k = Some v" then show ?thesis by simp
    next
      assume a: "k \<notin> BUILT_IN_VARS" "rest \<noteq> []" "captured (hd rest) k v"
      then have "Suc 0 < length (line # rest)" by (cases rest) auto
      moreover have "(line # rest) ! Suc 0 = hd rest" using a(2) by (cases rest) auto
      ultimately show ?thesis using True a by (intro disjI2 conjI exI[of _ 0]) auto
    next
      fix i assume a: "k \<notin> BUILT_IN_VARS" "Suc i < length rest"
        "startswith ''# makefile'' (rest ! i)" "captured (rest ! Suc i) k v"
      then show ?thesis by (intro disjI2 conjI exI[of _ "Suc i"]) auto
    qed
  next
    case False
    note nomark = this
    show ?thesis
    proof (cases nim)
      case False
      then have "parse_lines False result rest k = Some v" using Cons.prems(1) nomark by simp
      from Cons.IH [OF this nl] show ?thesis
      proof (elim disjE conjE exE)
        assume "result k = Some v" then show ?thesis by simp
      next
        assume "False" then show ?thesis by simp
      next
        fix i assume a: "k \<notin> BUILT_IN_VARS" "Suc i < length rest"
          "startswith ''# makefile'' (rest ! i)" "captured (rest ! Suc i) k v"
        then show ?thesis by (intro disjI2 conjI exI[of _ "Suc i"]) auto
      qed
    next
      case True
      define result' where "result' =
        (case re_match line of None \<Rightarrow> result
         | Some (var, val) \<Rightarrow> if var \<notin> BUILT_IN_VARS then result(var \<mapsto> strip val) else result)"
      have "parse_lines False result' rest k = Some v"
        using Cons.prems(1) nomark True unfolding result'_def
        by (auto split: option.splits if_splits)
      from Cons.IH [OF this nl] have
        "result' k = Some v \<or> (k \<notin> BUILT_IN_VARS \<and> (\<exists>i. Suc i < length rest
            \<and> startswith ''# makefile'' (rest ! i) \<and> captured (rest ! Suc i) k v))"
        by auto
      then show ?thesis
      proof (elim disjE conjE exE)
        assume r: "result' k = Some v"
        show ?thesis
        proof (cases "result k = Some v")
          case True then show ?thesis by simp
        next
          case False
          with r obtain val where m: "re_match line = Some (k, val)" and b: "k \<notin> BUILT_IN_VARS"
            and v: "v = strip val"
            unfolding result'_def by (auto split: option.splits if_splits)
          from re_match_SomeD [OF m nl1] v have "captured line k v"
            unfolding captured_def by blast
          then show ?thesis using b True nomark by simp
        qed
      next
        fix i assume a: "k \<notin> BUILT_IN_VARS" "Suc i < length rest"
          "startswith ''# makefile'' (rest ! i)" "captured (rest ! Suc i) k v"
        then show ?thesis by (intro disjI2 conjI exI[of _ "Suc i"]) auto
      qed
    qed
  qed
qed


section \<open>Sources from object files\<close>

lemma find_src_eq:
  "find_src e cp obj t =
     (spec_probe e t cp (stem_of obj),
      if spec_probe e t cp (stem_of obj) = None
      then t @ [Print (cant_find_warning cp (stem_of obj))] else t)"
  by (simp add: find_src_def spec_probe_def stem_of_def Let_def)

lemma spec_probe_cong: "written t = written t' \<Longrightarrow> spec_probe e t = spec_probe e t'"
  by (intro ext) (simp add: spec_probe_def path_exists_cong [of t t'])

text \<open>The loop adds, in order, the sources found and prints a warning for each stem without one.\<close>

lemma find_srcs_eq:
  "find_srcs e cp srcs objs t =
     (srcs @ List.map_filter (\<lambda>obj. spec_probe e t cp (stem_of obj)) objs,
      t @ map (\<lambda>obj. Print (cant_find_warning cp (stem_of obj)))
            (filter (\<lambda>obj. spec_probe e t cp (stem_of obj) = None) objs))"
proof (induction objs arbitrary: srcs t)
  case Nil
  then show ?case by (simp add: List.map_filter_simps)
next
  case (Cons obj objs)
  show ?case
  proof (cases "spec_probe e t cp (stem_of obj)")
    case None
    have "spec_probe e (t @ [Print (cant_find_warning cp (stem_of obj))]) = spec_probe e t"
      by (rule spec_probe_cong) simp
    then show ?thesis using None Cons.IH
      by (simp add: find_src_eq List.map_filter_simps)
  next
    case (Some src)
    then show ?thesis using Cons.IH
      by (simp add: find_src_eq List.map_filter_simps)
  qed
qed


section \<open>Evaluating the model on the sample project\<close>

lemmas string_defs = startswith_def endswith_def join2_def join3_def basename_def
  newline_def unlines_def

lemmas parse_defs = parse_output_def re_match_def val_group_def BUILT_IN_VARS_def
  strip_def lstrip_def rstrip_def is_space_def Let_def

lemmas demo_defs = demo_def demo_make_def demo_glob_def demo_cmdline_def make_cmdline_def

lemma demo_project_make:
  "run_make demo (make_cmdline ''/proj'' ''Makefile'' [])
     = Some \<lparr>returncode = 2, stdout = demo_project_output,
              stderr = ''make: *** No targets''\<rparr>"
  by (simp add: demo_def demo_make_def make_cmdline_def)

lemma demo_make_ascii:
  "ascii_decode (stdout (demo_make cmdline)) = Some (stdout (demo_make cmdline))"
  by (simp add: demo_make_def ascii_decode_def demo_project_output_def unlines_def
        newline_def split: list.split)

lemma demo_component_make:
  "component_make_variables demo ''/idf'' ''/proj'' dir t
     = (Inr (parse_output (stdout (demo_make (demo_cmdline dir)))),
        t @ [Spawn (demo_cmdline dir)])"
proof -
  have 1: "run_make demo = (\<lambda>cmdline. Some (demo_make cmdline))"
    and 2: "bytes_decode demo = ascii_decode" and 3: "\<not> debug demo"
    by (simp_all add: demo_def)
  have 4: "make_cmdline dir (join3 ''/idf'' ''make'' ''component_wrapper.mk'')
             [(''COMPONENT_MAKEFILE'', join2 dir ''component.mk''),
              (''COMPONENT_NAME'', basename dir), (''PROJECT_PATH'', ''/proj'')]
           = demo_cmdline dir"
    by (simp add: demo_cmdline_def join3_def join2_def startswith_def endswith_def)
  have 5: "returncode (demo_make (demo_cmdline dir)) = 0
           \<or> returncode (demo_make (demo_cmdline dir)) = 2"
    by (simp add: demo_make_def demo_cmdline_def make_cmdline_def)
  show ?thesis
    unfolding component_make_variables_def get_make_variables_def 4 Let_def
    by (simp add: 1 2 3 debug_print_def demo_make_ascii)
qed

lemma demo_main_vars:
  "parse_output (stdout (demo_make (demo_cmdline ''/proj/main''))) ''COMPONENT_OBJS''
     = Some ''main.o gone.o''"
  by (simp add: demo_defs string_defs parse_defs)


section \<open>The claims about the variable resolver\<close>

text \<open>
  Claim C4, as the code has it. When \<^verbatim>\<open>make\<close> cannot be started, the \<^verbatim>\<open>OSError\<close> of
  \<^verbatim>\<open>Popen\<close> is raised. When it has run, \<^verbatim>\<open>get_make_variables\<close> raises its
  \<^verbatim>\<open>RuntimeError\<close> if and only if the caller did not announce a failure and the exit
  status is not zero, and the error carries the status. In every other case, a
  tolerated non-zero exit included, the result depends on the output alone: the
  mapping parsed from its text when it decodes, \<^verbatim>\<open>UnicodeDecodeError\<close> when it does
  not.
\<close>

theorem get_make_variables_raises:
  "(run_make e (make_cmdline path makefile variables) = None \<longrightarrow>
      fst (get_make_variables e path makefile expected_failure variables t)
        = Inl (OSError ''make''))
   \<and> (run_make e (make_cmdline path makefile variables) = Some p \<longrightarrow>
        ((\<exists>msg. fst (get_make_variables e path makefile expected_failure variables t)
                  = Inl (RuntimeError msg))
           \<longleftrightarrow> \<not> expected_failure \<and> returncode p \<noteq> 0)
        \<and> (\<not> expected_failure \<and> returncode p \<noteq> 0 \<longrightarrow>
             fst (get_make_variables e path makefile expected_failure variables t)
               = Inl (RuntimeError (''Unexpected make failure, result ''
                                      @ str_of_int (returncode p))))
        \<and> ((expected_failure \<or> returncode p = 0) \<and> bytes_decode e (stdout p) = Some output
             \<longrightarrow> fst (get_make_variables e path makefile expected_failure variables t)
                   = Inr (parse_output output))
        \<and> ((expected_failure \<or> returncode p = 0) \<and> bytes_decode e (stdout p) = None
             \<longrightarrow> fst (get_make_variables e path makefile expected_failure variables t)
                   = Inl UnicodeDecodeError))"
  by (auto simp: get_make_variables_def Let_def split: option.splits)

text \<open>
  On the sample project \<^verbatim>\<open>make\<close> exits with status 2: the call that does not tolerate it
  raises, the call that does returns the variables. Where \<^verbatim>\<open>make\<close> cannot be started
  the call raises \<^verbatim>\<open>OSError\<close>.
\<close>

theorem get_make_variables_raises_witness:
  "fst (get_make_variables demo ''/proj'' ''Makefile'' False [] [])
     = Inl (RuntimeError ''Unexpected make failure, result 2'')
   \<and> fst (get_make_variables demo ''/proj'' ''Makefile'' True [] [])
     = Inr (parse_output demo_project_output)
   \<and> parse_output demo_project_output ''PROJECT_NAME'' = Some ''demo''
   \<and> fst (get_make_variables demo_no_make ''/proj'' ''Makefile'' True [] [])
     = Inl (OSError ''make'')"
proof -
  let ?p = "\<lparr>returncode = 2, stdout = demo_project_output,
              stderr = ''make: *** No targets''\<rparr>"
  have dec: "bytes_decode demo (stdout ?p) = Some demo_project_output"
    by (simp add: demo_def ascii_decode_def demo_project_output_def unlines_def newline_def)
  have s: "str_of_int 2 = ''2''"
    by code_simp
  have 1: "fst (get_make_variables demo ''/proj'' ''Makefile'' False [] [])
     = Inl (RuntimeError ''Unexpected make failure, result 2'')"
    using get_make_variables_raises [of demo "''/proj''" "''Makefile''" "[]" False "[]" ?p]
      demo_project_make s
    by simp
  have 2: "fst (get_make_variables demo ''/proj'' ''Makefile'' True [] [])
     = Inr (parse_output demo_project_output)"
    using get_make_variables_raises [of demo "''/proj''" "''Makefile''" "[]" True "[]" ?p
        demo_project_output] demo_project_make dec
    by simp
  have 3: "parse_output demo_project_output ''PROJECT_NAME'' = Some ''demo''"
    by (simp add: demo_project_output_def string_defs parse_defs)
  have nm: "run_make demo_no_make (make_cmdline ''/proj'' ''Makefile'' []) = None"
    by (simp add: demo_no_make_def)
  have 4: "fst (get_make_variables demo_no_make ''/proj'' ''Makefile'' True [] [])
     = Inl (OSError ''make'')"
    using get_make_variables_raises [of demo_no_make "''/proj''" "''Makefile''" "[]" True "[]"]
      nm
    by simp
  from 1 2 3 4 show ?thesis by simp
qed

text \<open>
  The claim as written promises the mapping for any output of a tolerated failure. A
  run that exits with status 2 and writes the single byte 255 is tolerated, and the
  call raises \<^verbatim>\<open>UnicodeDecodeError\<close>.
\<close>

theorem undecodable_output_counterexample:
  "run_make demo_garbled (make_cmdline ''/proj'' ''Makefile'' [])
     = Some \<lparr>returncode = 2, stdout = [CHR 0xFF], stderr = []\<rparr>
   \<and> bytes_decode demo_garbled [CHR 0xFF] = None
   \<and> get_make_variables demo_garbled ''/proj'' ''Makefile'' True [] []
     = (Inl UnicodeDecodeError,
        [Spawn [''make'', ''-rpn'', ''-C'', ''/proj'', ''-f'', ''Makefile'']])"
  by (simp add: get_make_variables_def demo_garbled_def demo_def ascii_decode_def
        make_cmdline_def debug_print_def Let_def)

text \<open>
  Claim C5, as the code has it. Every entry \<open>k \<mapsto> v\<close> of the mapping comes from a line
  \<^verbatim>\<open>k := val\<close> or \<^verbatim>\<open>k = val\<close> that directly follows a line starting with
  \<^verbatim>\<open># makefile\<close>; the name \<open>k\<close> is none of \<^verbatim>\<open>MAKEFILE_LIST\<close>, \<^verbatim>\<open>SHELL\<close>, \<^verbatim>\<open>CURDIR\<close>,
  \<^verbatim>\<open>MAKEFLAGS\<close>; and \<open>v\<close> is \<open>val\<close> stripped of white space at both ends.
\<close>

theorem parse_output_sound:
  assumes "parse_output output k = Some v"
  shows "k \<notin> BUILT_IN_VARS
         \<and> (\<exists>i val. Suc i < length (split_on newline output)
              \<and> startswith ''# makefile'' (split_on newline output ! i)
              \<and> (split_on newline output ! Suc i = k @ '' := '' @ val
                   \<or> split_on newline output ! Suc i = k @ '' = '' @ val)
              \<and> k \<noteq> [] \<and> CHR '' '' \<notin> set k \<and> val \<noteq> [] \<and> v = strip val)"
proof -
  have "\<forall>l \<in> set (split_on newline output). newline \<notin> set l"
    using split_on_no_sep by blast
  from parse_lines_sound [OF assms [unfolded parse_output_def] this]
  show ?thesis unfolding captured_def by auto
qed

theorem parse_output_sound_witness:
  "parse_output padded_output ''X'' = Some ''a''
   \<and> ''X'' \<notin> BUILT_IN_VARS
   \<and> (\<exists>i val. Suc i < length (split_on newline padded_output)
              \<and> startswith ''# makefile'' (split_on newline padded_output ! i)
              \<and> (split_on newline padded_output ! Suc i = ''X'' @ '' := '' @ val
                   \<or> split_on newline padded_output ! Suc i = ''X'' @ '' = '' @ val)
              \<and> ''X'' \<noteq> [] \<and> CHR '' '' \<notin> set ''X'' \<and> val \<noteq> [] \<and> ''a'' = strip val)"
proof -
  have h: "parse_output padded_output ''X'' = Some ''a''"
    by (simp add: padded_output_def string_defs parse_defs)
  from h parse_output_sound [OF h] show ?thesis by blast
qed

text \<open>
  The claim as written says that the value is right-trimmed. On the two lines
  \<^verbatim>\<open># makefile\<close> and \<^verbatim>\<open>X :=  a \<close> the only line after a marker gives \<^verbatim>\<open>X\<close> the text
  \<^verbatim>\<open> a \<close>, whose right-trimmed form keeps the leading blank; the mapping holds
  \<^verbatim>\<open>a\<close>.
\<close>

theorem right_trim_counterexample:
  "parse_output padded_output ''X'' = Some ''a''
   \<and> split_on newline padded_output = [''# makefile'', ''X :=  a '']
   \<and> ''X :=  a '' = ''X'' @ '' := '' @ '' a ''
   \<and> rstrip '' a '' = '' a''
   \<and> '' a'' \<noteq> ''a''"
  by (simp add: padded_output_def string_defs parse_defs)


section \<open>The claims about the component variables\<close>

text \<open>
  Claim C6. When the variables of a component define \<^verbatim>\<open>COMPONENT_OBJS\<close>,
  \<^verbatim>\<open>get_component_variables\<close> succeeds; \<^verbatim>\<open>COMPONENT_SRCS\<close> becomes the list, in order,
  of the sources that the probe finds for the stems of the object files (extension
  \<^verbatim>\<open>c\<close>, then \<^verbatim>\<open>cpp\<close>, then \<^verbatim>\<open>S\<close>, inside the component directory); a stem without
  a source is left out, and one warning is printed for each such stem.
\<close>

theorem objs_to_srcs:
  assumes "environ_IDF_PATH e = Some idf"
    and "component_make_variables e idf pp cp t = (Inr mv, t1)"
    and "mv ''COMPONENT_OBJS'' = Some objs"
  shows "\<exists>v. get_component_variables e pp cp t =
            (Inr v,
             t1 @ map (\<lambda>obj. Print (cant_find_warning cp (stem_of obj)))
                    (filter (\<lambda>obj. spec_probe e t cp (stem_of obj) = None)
                       (split_on CHR '' '' objs)))
          \<and> v ''COMPONENT_SRCS'' =
              Some (join_with '' ''
                      (List.map_filter (\<lambda>obj. spec_probe e t cp (stem_of obj))
                         (split_on CHR '' '' objs)))"
proof -
  have "written t1 = written t"
    using component_make_variables_written [of e idf pp cp t] assms(2) by simp
  then have "spec_probe e t1 = spec_probe e t" by (rule spec_probe_cong)
  then show ?thesis
    using assms by (simp add: get_component_variables_def find_srcs_eq)
qed

text \<open>
  The entry component of the sample project names \<^verbatim>\<open>main.o\<close> and \<^verbatim>\<open>gone.o\<close>; only
  \<^verbatim>\<open>main.c\<close> is on disk.
\<close>

theorem objs_to_srcs_witness:
  "\<exists>v. get_component_variables demo ''/proj'' ''/proj/main'' [] =
          (Inr v, [Spawn (demo_cmdline ''/proj/main''),
                   Print (cant_find_warning ''/proj/main'' ''gone'')])
       \<and> v ''COMPONENT_SRCS'' = Some ''main.c''"
proof -
  have idf: "environ_IDF_PATH demo = Some ''/idf''" by (simp add: demo_def)
  have mk: "component_make_variables demo ''/idf'' ''/proj'' ''/proj/main'' []
     = (Inr (parse_output (stdout (demo_make (demo_cmdline ''/proj/main'')))),
        [Spawn (demo_cmdline ''/proj/main'')])"
    using demo_component_make [of "''/proj/main''" "[]"] by simp
  have sp: "split_on CHR '' '' ''main.o gone.o'' = [''main.o'', ''gone.o'']" by simp
  have st: "stem_of ''main.o'' = ''main''" "stem_of ''gone.o'' = ''gone''"
    by (simp_all add: stem_of_def splitext_def basename_def Let_def)
  have pr: "spec_probe demo [] ''/proj/main'' ''main'' = Some ''main.c''"
    "spec_probe demo [] ''/proj/main'' ''gone'' = None"
    by (simp_all add: spec_probe_def path_exists_def written_paths_def demo_def string_defs)
  from objs_to_srcs [OF idf mk demo_main_vars] show ?thesis
    by (simp add: sp st pr List.map_filter_simps)
qed


section \<open>A missing source directory list means the component directory\<close>










section \<open>Converting a component: the two outcomes\<close>


lemma convert_component_skip:
  assumes "path_exists e t (cmakelists_of cp)"
  shows "convert_component e pp cp t =
           (Inr (), debug_print e (converting_notice cp) t
                      @ [Print (skipping_notice (cmakelists_of cp))])"
  using assms by (simp add: convert_component_def Let_def)



section \<open>What a run adds to the trace\<close>

text \<open>
  Resolving variables spawns processes and prints, and writes nothing. Converting a
  component writes at most its descriptor, and only where none exists. So every path
  that a run writes did not exist when the run began.
\<close>

lemma written_map_Print [simp]: "written (map (\<lambda>x. Print (f x)) xs) = []"
  by (induction xs) auto











section \<open>The sample project, step by step\<close>

lemma demo_debug_print [simp]: "debug_print demo s t = t"
  by (simp add: debug_print_def demo_def)

lemma demo_idf: "environ_IDF_PATH demo = Some ''/idf''"
  by (simp add: demo_def)

lemma demo_can_open: "fs_can_open demo p"
  by (simp add: demo_def)


lemma demo_exists:
  "path_exists demo t p \<longleftrightarrow>
     p \<in> set [''/proj'', ''/proj/Makefile'', ''/proj/main/main.c'', ''/proj/compA/a.c'',
               ''/proj/compC/c1.c'', ''/proj/compC/c2.c'', ''/proj/compD/CMakeLists.txt'',
               ''/proj/compE/e.c'']
     \<or> p \<in> set (written_paths t)"
  by (simp add: path_exists_def demo_def)


lemma cmakelists_eval:
  "cmakelists_of ''/proj'' = ''/proj/CMakeLists.txt''"
  "cmakelists_of ''/proj/compA'' = ''/proj/compA/CMakeLists.txt''"
  "cmakelists_of ''/proj/compB'' = ''/proj/compB/CMakeLists.txt''"
  "cmakelists_of ''/proj/compC'' = ''/proj/compC/CMakeLists.txt''"
  "cmakelists_of ''/proj/compD'' = ''/proj/compD/CMakeLists.txt''"
  "cmakelists_of ''/proj/compE'' = ''/proj/compE/CMakeLists.txt''"
  by (simp_all add: cmakelists_of_def string_defs)

lemma demo_vars_eval:
  "parse_output (stdout (demo_make (demo_cmdline ''/proj/compA'')))
     = [''COMPONENT_SRCS'' \<mapsto> ''a.c'', ''COMPONENT_SRCDIRS'' \<mapsto> ''.'']"
  "parse_output (stdout (demo_make (demo_cmdline ''/proj/compC'')))
     = [''COMPONENT_SRCS'' \<mapsto> ''c1.c'', ''COMPONENT_SRCDIRS'' \<mapsto> ''.'', ''CFLAGS'' \<mapsto> ''-O2'']"
  "parse_output (stdout (demo_make (demo_cmdline ''/proj/compE'')))
     = [''COMPONENT_OBJS'' \<mapsto> ''e.o'']"
  "parse_output (stdout (demo_make (demo_cmdline ''/proj/main'')))
     = [''COMPONENT_OBJS'' \<mapsto> ''main.o gone.o'']"
  "parse_output (stdout (demo_make (demo_cmdline ''/proj/compB''))) = Map.empty"
  by (simp_all add: demo_make_def demo_cmdline_def make_cmdline_def string_defs parse_defs)




lemma stems_eval:
  "stem_of ''e.o'' = ''e''" "stem_of ''main.o'' = ''main''" "stem_of ''gone.o'' = ''gone''"
  by (simp_all add: stem_of_def splitext_def basename_def Let_def)














lemma demo_basenames:
  "basename ''/proj/main'' = ''main''" "basename ''/proj/compA'' = ''compA''"
  "basename ''/proj/compB'' = ''compB''" "basename ''/proj/compC'' = ''compC''"
  "basename ''/proj/compD'' = ''compD''" "basename ''/proj/compE'' = ''compE''"
  by (simp_all add: basename_def)






section \<open>The claims about the conversion of a component\<close>





lemma component_text_config_only:
  "component_text incl None None cflags =
     ''set(COMPONENT_ADD_INCLUDEDIRS '' @ incl @ '')'' @ [CHR 0x0A, CHR 0x0A]
     @ ''register_config_only_component()'' @ [CHR 0x0A]
     @ (case cflags of
          None \<Rightarrow> []
        | Some fl \<Rightarrow> ''component_compile_options('' @ fl @ '')'' @ [CHR 0x0A])"
  by (simp add: component_text_def set_includedirs_def register_config_only_component_def
        compile_options_def newline_def split: option.split)







text \<open>
  Claim C3. Let the descriptor not exist yet and let the variables that \<^verbatim>\<open>make\<close> reports
  define neither \<^verbatim>\<open>COMPONENT_OBJS\<close> nor \<^verbatim>\<open>COMPONENT_SRCS\<close>. Then the descriptor reads:
  the include directories (\<^verbatim>\<open>include\<close> when \<^verbatim>\<open>COMPONENT_ADD_INCLUDEDIRS\<close> is not
  defined), \<^verbatim>\<open>register_config_only_component()\<close>, and the compile options if there are
  any. It declares no sources and no source directories.
\<close>

theorem config_only:
  assumes "\<not> path_exists e t (cmakelists_of cp)"
    and "environ_IDF_PATH e = Some idf"
    and "component_make_variables e idf pp cp (debug_print e (converting_notice cp) t)
           = (Inr mv, t1)"
    and "mv ''COMPONENT_OBJS'' = None"
    and "mv ''COMPONENT_SRCS'' = None"
    and "fs_can_open e (cmakelists_of cp)"
  shows "convert_component e pp cp t =
           (Inr (),
            t1 @ [Write (cmakelists_of cp)
                    (''set(COMPONENT_ADD_INCLUDEDIRS ''
                       @ (case mv ''COMPONENT_ADD_INCLUDEDIRS'' of
                            None \<Rightarrow> ''include''
                          | Some d \<Rightarrow> d)
                       @ '')'' @ [CHR 0x0A, CHR 0x0A]
                     @ ''register_config_only_component()'' @ [CHR 0x0A]
                     @ (case mv ''CFLAGS'' of
                          None \<Rightarrow> []
                        | Some fl \<Rightarrow>
                            ''component_compile_options('' @ fl @ '')'' @ [CHR 0x0A])),
                  Print (''Converted '' @ cmakelists_of cp)])"
  using assms
  by (simp add: convert_component_def get_component_variables_def Let_def dict_get_def
        choose_srcdirs_def component_text_config_only converted_notice_def
      split: option.split)

text \<open>The component \<^verbatim>\<open>compB\<close> defines nothing.\<close>

theorem config_only_witness:
  "convert_component demo ''/proj'' ''/proj/compB'' [] =
     (Inr (), [Spawn (demo_cmdline ''/proj/compB''),
               Write ''/proj/compB/CMakeLists.txt''
                 ''set(COMPONENT_ADD_INCLUDEDIRS include)\<newline>\<newline>register_config_only_component()\<newline>'',
               Print ''Converted /proj/compB/CMakeLists.txt''])"
proof -
  have mk: "component_make_variables demo ''/idf'' ''/proj'' ''/proj/compB''
              (debug_print demo (converting_notice ''/proj/compB'') [])
            = (Inr Map.empty, [Spawn (demo_cmdline ''/proj/compB'')])"
    using demo_component_make [of "''/proj/compB''" "[]"] demo_vars_eval(5) by simp
  have nc: "\<not> path_exists demo [] (cmakelists_of ''/proj/compB'')"
    by (simp add: demo_exists cmakelists_eval written_paths_def)
  from config_only [OF nc demo_idf mk _ _ demo_can_open]
  show ?thesis
    by (simp add: cmakelists_eval)
qed

text \<open>
  Claim C10. When the descriptor of a component exists, \<^verbatim>\<open>convert_component\<close> only
  prints (the debug line, if asked for, and the notice): the trace gains no process
  and no written file, and the call succeeds.
\<close>

theorem skip_before_resolution:
  assumes "path_exists e t (cmakelists_of cp)"
  shows "convert_component e pp cp t =
           (Inr (), debug_print e (converting_notice cp) t
                      @ [Print (skipping_notice (cmakelists_of cp))])
         \<and> spawned (snd (convert_component e pp cp t)) = spawned t
         \<and> written (snd (convert_component e pp cp t)) = written t"
  using convert_component_skip [OF assms] by simp

text \<open>
  The component \<^verbatim>\<open>compD\<close> has its descriptor already.
\<close>

theorem skip_before_resolution_witness:
  "convert_component demo ''/proj'' ''/proj/compD'' [] =
     (Inr (), [Print (skipping_notice ''/proj/compD/CMakeLists.txt'')])
   \<and> spawned (snd (convert_component demo ''/proj'' ''/proj/compD'' [])) = []
   \<and> written (snd (convert_component demo ''/proj'' ''/proj/compD'' [])) = []"
proof -
  have d: "path_exists demo [] (cmakelists_of ''/proj/compD'')"
    by (simp add: demo_exists cmakelists_eval)
  from skip_before_resolution [OF d, of "''/proj''"] show ?thesis
    by (simp add: cmakelists_eval)
qed


section \<open>The claims about the conversion of a project\<close>



text \<open>
  Claim C9 does not hold of the code. The entry component of this project names the
  object file \<^verbatim>\<open>gone.o\<close>, for which there is no source: its \<^verbatim>\<open>COMPONENT_SRCS\<close> is the
  empty string, which is how the script writes an empty source list. Splitting the
  empty string gives one empty item; joined to the component path it is the component
  directory, and the project descriptor names the directory \<^verbatim>\<open>main\<close> as the one entry
  source.
\<close>

theorem empty_main_lists_directory:
  "resolved_variable demo_bare ''/proj'' ''/proj/main'' ''COMPONENT_SRCS'' = Some []
   \<and> convert_project demo_bare ''/proj'' [] =
     (Inr (),
      [Spawn [''make'', ''-rpn'', ''-C'', ''/proj'', ''-f'', ''Makefile''],
       Spawn [''make'', ''-rpn'', ''-C'', ''/proj/main'', ''-f'',
              ''/idf/make/component_wrapper.mk'',
              ''COMPONENT_MAKEFILE=/proj/main/component.mk'',
              ''COMPONENT_NAME=main'',
              ''PROJECT_PATH=/proj''],
       Print ''WARNING: Can't find source file for component /proj/main COMPONENT_OBJS gone'',
       Write ''/proj/CMakeLists.txt''
         ''\<newline># (Automatically converted from project Makefile by convert_to_cmake.py.)\<newline>\<newline># The following four lines of boilerplate have to be in your project's CMakeLists\<newline># in this exact order for cmake to work correctly\<newline>cmake_minimum_required(VERSION 3.5)\<newline>\<newline>set(MAIN_SRCS main)\<newline>\<newline>include($ENV{IDF_PATH}/tools/cmake/project.cmake)\<newline>project(demo)\<newline>'',
       Print ''Converted project /proj/CMakeLists.txt''])"
proof -
  have dec: "bytes_decode demo_bare = ascii_decode" and dbg: "\<not> debug demo_bare"
    and idf: "environ_IDF_PATH demo_bare = Some ''/idf''"
    and cwd: "getcwd demo_bare = ''/proj''"
    and opn: "fs_can_open demo_bare = (\<lambda>p. True)"
    by (simp_all add: demo_bare_def demo_def)
  have ex: "\<And>t p. path_exists demo_bare t p = path_exists demo t p"
    by (simp add: path_exists_def demo_bare_def demo_def)
  let ?main = "[''make'', ''-rpn'', ''-C'', ''/proj/main'', ''-f'',
              ''/idf/make/component_wrapper.mk'',
              ''COMPONENT_MAKEFILE=/proj/main/component.mk'',
              ''COMPONENT_NAME=main'',
              ''PROJECT_PATH=/proj'']"
  have rm1: "run_make demo_bare [''make'', ''-rpn'', ''-C'', ''/proj'', ''-f'', ''Makefile'']
             = Some \<lparr>returncode = 0, stdout = bare_output, stderr = []\<rparr>"
    and rm2: "run_make demo_bare ?main
             = Some \<lparr>returncode = 0,
                     stdout = unlines [''# makefile'', ''COMPONENT_OBJS := gone.o''],
                     stderr = []\<rparr>"
    by (simp_all add: demo_bare_def)
  have asc: "ascii_decode bare_output = Some bare_output"
    "ascii_decode (unlines [''# makefile'', ''COMPONENT_OBJS := gone.o''])
       = Some (unlines [''# makefile'', ''COMPONENT_OBJS := gone.o''])"
    by (simp_all add: ascii_decode_def bare_output_def unlines_def newline_def)
  have pg: "\<And>t. get_make_variables demo_bare ''/proj'' ''Makefile'' True [] t =
     (Inr (parse_output bare_output),
      t @ [Spawn [''make'', ''-rpn'', ''-C'', ''/proj'', ''-f'', ''Makefile'']])"
    by (simp add: get_make_variables_def Let_def make_cmdline_def debug_print_def dbg dec
          rm1 asc)
  have pv: "parse_output bare_output ''PROJECT_NAME'' = Some ''demo''"
    "parse_output bare_output ''COMPONENT_PATHS'' = Some ''/proj/main''"
    by (simp_all add: bare_output_def string_defs parse_defs)
  have po: "parse_output (unlines [''# makefile'', ''COMPONENT_OBJS := gone.o''])
              = [''COMPONENT_OBJS'' \<mapsto> ''gone.o'']"
    by (simp add: string_defs parse_defs)
  have cl: "make_cmdline ''/proj/main'' (join3 ''/idf'' ''make'' ''component_wrapper.mk'')
              [(''COMPONENT_MAKEFILE'', join2 ''/proj/main'' ''component.mk''),
               (''COMPONENT_NAME'', basename ''/proj/main''), (''PROJECT_PATH'', ''/proj'')]
            = ?main"
    by (simp add: make_cmdline_def string_defs)
  have mg: "\<And>t. component_make_variables demo_bare ''/idf'' ''/proj'' ''/proj/main'' t =
     (Inr [''COMPONENT_OBJS'' \<mapsto> ''gone.o''], t @ [Spawn ?main])"
    unfolding component_make_variables_def get_make_variables_def cl Let_def
    by (simp add: debug_print_def dbg dec rm2 asc po)
  have probe: "\<And>t. written t = [] \<Longrightarrow> spec_probe demo_bare t ''/proj/main'' ''gone'' = None"
    by (simp add: spec_probe_def ex demo_exists string_defs written_paths_def)
  have gv: "\<And>t. written t = [] \<Longrightarrow>
      get_component_variables demo_bare ''/proj'' ''/proj/main'' t =
        (Inr [''COMPONENT_OBJS'' \<mapsto> ''gone.o'', ''COMPONENT_SRCS'' \<mapsto> [],
              ''COMPONENT_ADD_INCLUDEDIRS'' \<mapsto> ''include''],
         t @ [Spawn ?main,
              Print ''WARNING: Can't find source file for component /proj/main COMPONENT_OBJS gone''])"
    by (simp add: get_component_variables_def idf mg find_srcs_eq stems_eval probe
          List.map_filter_simps dict_get_def cant_find_warning_def)
  have 1: "resolved_variable demo_bare ''/proj'' ''/proj/main'' ''COMPONENT_SRCS'' = Some []"
    by (simp add: resolved_variable_def gv)
  have rel: "relpath ''/proj'' (normpath (join2 ''/proj/main'' [])) ''/proj'' = Inr ''main''"
    by (simp add: relpath_def abspath_def normpath_def initial_slashes_of_def
          string_defs Let_def)
  have mk: "join2 ''/proj'' ''Makefile'' = ''/proj/Makefile''" by (simp add: string_defs)
  have 2: "convert_project demo_bare ''/proj'' [] =
     (Inr (),
      [Spawn [''make'', ''-rpn'', ''-C'', ''/proj'', ''-f'', ''Makefile''],
       Spawn ?main,
       Print ''WARNING: Can't find source file for component /proj/main COMPONENT_OBJS gone'',
       Write ''/proj/CMakeLists.txt''
         ''\<newline># (Automatically converted from project Makefile by convert_to_cmake.py.)\<newline>\<newline># The following four lines of boilerplate have to be in your project's CMakeLists\<newline># in this exact order for cmake to work correctly\<newline>cmake_minimum_required(VERSION 3.5)\<newline>\<newline>set(MAIN_SRCS main)\<newline>\<newline>include($ENV{IDF_PATH}/tools/cmake/project.cmake)\<newline>project(demo)\<newline>'',
       Print ''Converted project /proj/CMakeLists.txt''])"
    unfolding convert_project_def
    by (simp add: ex demo_exists written_paths_def cmakelists_eval mk pg pv find_main_def
          demo_basenames debug_print_def dbg gv write_project_def main_srcs_abs_def rel cwd opn
          project_text_def newline_def Let_def)
  from 1 2 show ?thesis by simp
qed

text \<open>
  Claim C8 does not hold of the code. Without a \<^verbatim>\<open>main\<close> component the warning is
  printed and the components are converted, but then the sources of the dummy entry
  are joined to \<^verbatim>\<open>main_component_path\<close>, a name that was never bound: the run ends
  in \<^verbatim>\<open>NameError\<close> and no project descriptor is written.
\<close>

theorem no_main_raises:
  "convert_project demo_no_main ''/proj'' [] =
     (Inl (NameError ''main_component_path''),
      [Spawn [''make'', ''-rpn'', ''-C'', ''/proj'', ''-f'', ''Makefile''],
       Print no_main_warning,
       Spawn (demo_cmdline ''/proj/compA''),
       Write ''/proj/compA/CMakeLists.txt''
         (set_includedirs ''include'' @ set_srcdirs ''.'' @ register_component),
       Print (converted_notice ''/proj/compA/CMakeLists.txt''),
       Spawn (demo_cmdline ''/proj/compB''),
       Write ''/proj/compB/CMakeLists.txt''
         (set_includedirs ''include'' @ register_config_only_component),
       Print (converted_notice ''/proj/compB/CMakeLists.txt'')])"
  by (simp add: convert_project_def demo_no_main_def no_main_output_def demo_defs string_defs
        parse_defs path_exists_def written_paths_def cmakelists_of_def get_make_variables_def
        debug_print_def find_main_def convert_component_def get_component_variables_def
        component_make_variables_def dict_get_def choose_srcdirs_def glob_allsrcs_def
        abs_srcs_def normpath_def initial_slashes_of_def component_text_def
        compile_options_def write_project_def main_srcs_abs_def ascii_decode_def)

end
